theory Spec2Isabelle
  imports Main
begin

section \<open>JavaScript values used by the triangle layout\<close>

text \<open>
  The layout computes with JavaScript numbers. The values that reach a number position
  in \<^verbatim>\<open>triangle-layout.js\<close> are integers (scale, pixel origins, column numbers, the results of
  \<^verbatim>\<open>parseInt\<close>), \<^verbatim>\<open>NaN\<close> (from \<^verbatim>\<open>parseInt\<close> or from arithmetic on \<^verbatim>\<open>undefined\<close>) and
  \<^verbatim>\<open>undefined\<close> (a missing \<^verbatim>\<open>Map\<close> entry, a missing argument).

  A JavaScript number is a double. Every integer of magnitude at most \<open>2^53\<close> is a double,
  sums and products of such integers are computed without rounding as long as the result
  stays in that range, and such an integer prints as its decimal digits. \<open>Num n\<close> stands for
  the double \<open>n\<close> in that range, and the arithmetic and the printing below are the
  program's there and only there: beyond it the program rounds, overflows to
  \<^verbatim>\<open>Infinity\<close> and prints exponents, which this type does not hold. The layout computes no
  number larger than six times the scale, so the statements about a constructed layout
  take a scale \<open>s\<close> with \<open>6 * s \<le> 2^53\<close>, and the statements about an input triple take
  coordinates in the range.
\<close>

datatype jsnum = Undefined | NaN | Num int

text \<open>A value in row position or in the returned pair: a number-position value or a string.\<close>

datatype jsval = Val jsnum | Str string

text \<open>\<^verbatim>\<open>a + b\<close> and \<^verbatim>\<open>a * b\<close> on number-position values: anything but two numbers gives
  \<^verbatim>\<open>NaN\<close>. On two numbers the result is the program's when it has magnitude at most
  \<open>2^53\<close>.\<close>

fun js_add :: "jsnum \<Rightarrow> jsnum \<Rightarrow> jsnum" where
  "js_add (Num a) (Num b) = Num (a + b)"
| "js_add _ _ = NaN"

fun js_mul :: "jsnum \<Rightarrow> jsnum \<Rightarrow> jsnum" where
  "js_mul (Num a) (Num b) = Num (a * b)"
| "js_mul _ _ = NaN"

text \<open>\<^verbatim>\<open>a % b\<close>: the remainder has the sign of the dividend; a zero divisor gives \<^verbatim>\<open>NaN\<close>.\<close>

fun js_rem :: "jsnum \<Rightarrow> jsnum \<Rightarrow> jsnum" where
  "js_rem (Num a) (Num b) = (if b = 0 then NaN else Num (sgn a * (\<bar>a\<bar> mod \<bar>b\<bar>)))"
| "js_rem _ _ = NaN"

text \<open>\<^verbatim>\<open>a > b\<close> and \<^verbatim>\<open>a < b\<close>: \<^verbatim>\<open>undefined\<close> converts to \<^verbatim>\<open>NaN\<close>, and every comparison with
  \<^verbatim>\<open>NaN\<close> is false.\<close>

fun js_gt :: "jsnum \<Rightarrow> jsnum \<Rightarrow> bool" where
  "js_gt (Num a) (Num b) = (a > b)"
| "js_gt _ _ = False"

fun js_lt :: "jsnum \<Rightarrow> jsnum \<Rightarrow> bool" where
  "js_lt (Num a) (Num b) = (a < b)"
| "js_lt _ _ = False"

text \<open>\<^verbatim>\<open>a === b\<close> on number-position values: \<^verbatim>\<open>NaN\<close> is not equal to itself.\<close>

definition js_strict_eq :: "jsnum \<Rightarrow> jsnum \<Rightarrow> bool" where
  "js_strict_eq a b = (a = b \<and> a \<noteq> NaN)"

text \<open>\<^verbatim>\<open>a === b\<close> on values: strings by content, numbers as above, never across the two.\<close>

fun js_strict_eq_val :: "jsval \<Rightarrow> jsval \<Rightarrow> bool" where
  "js_strict_eq_val (Val a) (Val b) = js_strict_eq a b"
| "js_strict_eq_val (Str s) (Str t) = (s = t)"
| "js_strict_eq_val _ _ = False"

text \<open>\<^verbatim>\<open>isNaN(a)\<close> converts its argument to a number first, so \<^verbatim>\<open>undefined\<close> counts.\<close>

fun isNaN :: "jsnum \<Rightarrow> bool" where
  "isNaN (Num a) = False"
| "isNaN _ = True"

text \<open>Truthiness of a number-position value, as in \<^verbatim>\<open>if (!scale)\<close>.\<close>

fun js_truthy :: "jsnum \<Rightarrow> bool" where
  "js_truthy (Num a) = (a \<noteq> 0)"
| "js_truthy _ = False"

subsection \<open>Numbers as strings\<close>

definition digit_char :: "nat \<Rightarrow> char" where
  "digit_char d = ''0123456789'' ! (d mod 10)"

fun decimal_digits :: "nat \<Rightarrow> string" where
  "decimal_digits n =
     (if n < 10 then [digit_char n] else decimal_digits (n div 10) @ [digit_char (n mod 10)])"

declare decimal_digits.simps [simp del]

text \<open>The string of an integer number of magnitude at most \<open>2^53\<close>, as string concatenation
  and \<^verbatim>\<open>JSON.stringify\<close> print it: a minus sign for a negative number, then the digits.\<close>

definition NumberToString :: "int \<Rightarrow> string" where
  "NumberToString n =
     (if n < 0 then CHR ''-'' # decimal_digits (nat (- n)) else decimal_digits (nat n))"

fun ToString :: "jsval \<Rightarrow> string" where
  "ToString (Str s) = s"
| "ToString (Val Undefined) = ''undefined''"
| "ToString (Val NaN) = ''NaN''"
| "ToString (Val (Num n)) = NumberToString n"

subsection \<open>\<^verbatim>\<open>parseInt\<close>\<close>

text \<open>
  \<^verbatim>\<open>parseInt(s)\<close> with no radix: skip leading white space, read a sign, take radix 16 after a
  \<^verbatim>\<open>0x\<close> prefix and radix 10 otherwise, and read digits as long as there are any; no digit
  at all gives \<^verbatim>\<open>NaN\<close>. Strings are ASCII here.
\<close>

definition is_whitespace :: "char \<Rightarrow> bool" where
  "is_whitespace c = (c \<in> set [CHR 0x09, CHR 0x0A, CHR 0x0B, CHR 0x0C, CHR 0x0D, CHR 0x20])"

definition digit_value :: "char \<Rightarrow> nat" where
  "digit_value c =
     (let n = (of_char c :: nat) in
      if 48 \<le> n \<and> n \<le> 57 then n - 48
      else if 97 \<le> n \<and> n \<le> 102 then n - 87
      else if 65 \<le> n \<and> n \<le> 70 then n - 55
      else 36)"

definition parse_digits :: "nat \<Rightarrow> string \<Rightarrow> int \<Rightarrow> jsnum" where
  "parse_digits radix s sign =
     (let ds = takeWhile (\<lambda>c. digit_value c < radix) s in
      if ds = [] then NaN
      else Num (sign * int (foldl (\<lambda>acc c. acc * radix + digit_value c) 0 ds)))"

definition parseInt_string :: "string \<Rightarrow> jsnum" where
  "parseInt_string s =
     (let t = dropWhile is_whitespace s;
          sign = (if take 1 t = ''-'' then - 1 else 1);
          u = (if take 1 t = ''-'' \<or> take 1 t = ''+'' then drop 1 t else t)
      in if take 2 u = ''0x'' \<or> take 2 u = ''0X'' then parse_digits 16 (drop 2 u) sign
         else parse_digits 10 u sign)"

text \<open>\<^verbatim>\<open>parseInt(v)\<close> converts \<open>v\<close> to a string first and reads that string.\<close>

definition parseInt :: "jsval \<Rightarrow> jsnum" where
  "parseInt v = parseInt_string (ToString v)"

section \<open>Ordered maps\<close>

text \<open>
  An ECMAScript \<^verbatim>\<open>Map\<close> keeps its entries in insertion order: an association list.
  \<^verbatim>\<open>set\<close> overwrites the value of a key that is present and appends a new key at the end;
  \<^verbatim>\<open>get\<close> of a missing key is \<^verbatim>\<open>undefined\<close>.
\<close>

fun Map_set :: "('k \<times> jsnum) list \<Rightarrow> 'k \<Rightarrow> jsnum \<Rightarrow> ('k \<times> jsnum) list" where
  "Map_set [] k v = [(k, v)]"
| "Map_set ((k', v') # m) k v = (if k' = k then (k, v) # m else (k', v') # Map_set m k v)"

fun Map_get :: "('k \<times> jsnum) list \<Rightarrow> 'k \<Rightarrow> jsnum" where
  "Map_get [] k = Undefined"
| "Map_get ((k', v') # m) k = (if k' = k then v' else Map_get m k)"

definition Map_keys :: "('k \<times> jsnum) list \<Rightarrow> 'k list" where
  "Map_keys m = map fst m"

section \<open>The triangle layout\<close>

record Coordinate =
  X :: jsnum
  Y :: jsnum

record TriangleCoordinates =
  V1 :: Coordinate
  V2 :: Coordinate
  V3 :: Coordinate

record TriangleLayout =
  SCALE :: jsnum
  ROW_CHARS :: "string list"
  ROW_MAP :: "(string \<times> jsnum) list"
  MAX_COLS :: int
  COL_MAP :: "(int \<times> jsnum) list"

text \<open>
  The constructor. A falsy scale (a missing argument, \<open>0\<close>, \<^verbatim>\<open>NaN\<close>) is replaced by 10. The
  rows map to \<^verbatim>\<open>SCALE * i\<close>; column 1 maps to 0 and each later column to the value of the
  previous one, plus the scale when the column is odd.
\<close>

definition TriangleLayout_new :: "jsnum \<Rightarrow> TriangleLayout" where
  "TriangleLayout_new scale0 =
     (let scale = (if \<not> js_truthy scale0 then Num 10 else scale0);
          row_chars = map (\<lambda>c. [c]) ''ABCDEF'';
          row_map = fold (\<lambda>i m. Map_set m (row_chars ! i) (js_mul scale (Num (int i))))
                      [0 ..< length row_chars] [];
          max_cols = 12;
          col_map = fold (\<lambda>i m. Map_set m i
                        (if i mod 2 = 0 then Map_get m (i - 1)
                         else js_add (Map_get m (i - 1)) scale))
                      [2 .. max_cols] (Map_set [] 1 (Num 0))
      in \<lparr>SCALE = scale, ROW_CHARS = row_chars, ROW_MAP = row_map,
          MAX_COLS = max_cols, COL_MAP = col_map\<rparr>)"

text \<open>\<^verbatim>\<open>COL_MAP.get(col)\<close> and \<^verbatim>\<open>ROW_MAP.get(row)\<close>: the column keys are numbers and the row keys
  strings, so a key of another kind is missing.\<close>

fun COL_MAP_get :: "TriangleLayout \<Rightarrow> jsnum \<Rightarrow> jsnum" where
  "COL_MAP_get L (Num c) = Map_get (COL_MAP L) c"
| "COL_MAP_get L _ = Undefined"

fun ROW_MAP_get :: "TriangleLayout \<Rightarrow> jsval \<Rightarrow> jsnum" where
  "ROW_MAP_get L (Str r) = Map_get (ROW_MAP L) r"
| "ROW_MAP_get L _ = Undefined"

definition calculateCoordinates :: "TriangleLayout \<Rightarrow> jsval \<Rightarrow> jsnum \<Rightarrow> TriangleCoordinates" where
  "calculateCoordinates L row col =
     (let isEvenColumn = js_strict_eq (js_rem col (Num 2)) (Num 0);
          x = COL_MAP_get L col;
          y = ROW_MAP_get L row
      in \<lparr>V1 = (if isEvenColumn then \<lparr>X = js_add x (SCALE L), Y = y\<rparr>
                else \<lparr>X = x, Y = js_add y (SCALE L)\<rparr>),
          V2 = (if isEvenColumn then \<lparr>X = js_add x (SCALE L), Y = js_add y (SCALE L)\<rparr>
                else \<lparr>X = x, Y = y\<rparr>),
          V3 = (if isEvenColumn then \<lparr>X = x, Y = y\<rparr>
                else \<lparr>X = js_add x (SCALE L), Y = js_add y (SCALE L)\<rparr>)\<rparr>)"

text \<open>
  The loop over \<^verbatim>\<open>map.keys()\<close>, in insertion order: the first key whose value is strictly
  equal to \<open>val\<close>. Falling off the loop returns \<^verbatim>\<open>undefined\<close>, which is \<open>None\<close> here.
\<close>

fun getMapKeyUsingValue_loop :: "('k \<times> jsnum) list \<Rightarrow> 'k list \<Rightarrow> jsnum \<Rightarrow> 'k option" where
  "getMapKeyUsingValue_loop m [] val = None"
| "getMapKeyUsingValue_loop m (key # keys) val =
     (if js_strict_eq val (Map_get m key) then Some key
      else getMapKeyUsingValue_loop m keys val)"

definition getMapKeyUsingValue :: "('k \<times> jsnum) list \<Rightarrow> jsnum \<Rightarrow> 'k option" where
  "getMapKeyUsingValue m val = getMapKeyUsingValue_loop m (Map_keys m) val"

subsection \<open>\<^verbatim>\<open>JSON.stringify\<close> of the coordinates\<close>

text \<open>
  An object prints its members in insertion order, separated by commas. A member whose
  value is \<^verbatim>\<open>undefined\<close> is left out, \<^verbatim>\<open>NaN\<close> prints as \<^verbatim>\<open>null\<close>.
\<close>

fun JSON_member :: "string \<Rightarrow> jsnum \<Rightarrow> string list" where
  \<open>JSON_member key Undefined = []\<close>
| \<open>JSON_member key NaN = [''"'' @ key @ ''":null'']\<close>
| \<open>JSON_member key (Num n) = [''"'' @ key @ ''":'' @ NumberToString n]\<close>

fun join_commas :: "string list \<Rightarrow> string" where
  "join_commas [] = []"
| "join_commas [s] = s"
| "join_commas (s # t # ss) = s @ '','' @ join_commas (t # ss)"

definition JSON_Coordinate :: "Coordinate \<Rightarrow> string" where
  "JSON_Coordinate c =
     ''{'' @ join_commas (JSON_member ''X'' (X c) @ JSON_member ''Y'' (Y c)) @ ''}''"

definition JSON_stringify :: "TriangleCoordinates \<Rightarrow> string" where
  \<open>JSON_stringify t =
     ''{"V1":'' @ JSON_Coordinate (V1 t) @ '',"V2":'' @ JSON_Coordinate (V2 t)
       @ '',"V3":'' @ JSON_Coordinate (V3 t) @ ''}''\<close>

subsection \<open>The inverse\<close>

text \<open>
  The key that the lookup returns, as a value: a column key is a number, a row key a string,
  and no key is \<^verbatim>\<open>undefined\<close>. The function returns an array of two values: the row and the
  column it found, or two empty strings when the recomputed vertices print differently
  from the input. No statement of it can throw, so the model has no error result.
\<close>

definition key_num :: "int option \<Rightarrow> jsnum" where
  "key_num k = (case k of None \<Rightarrow> Undefined | Some c \<Rightarrow> Num c)"

definition key_val :: "string option \<Rightarrow> jsval" where
  "key_val k = (case k of None \<Rightarrow> Val Undefined | Some r \<Rightarrow> Str r)"

definition calculateRowAndColumn :: "TriangleLayout \<Rightarrow> TriangleCoordinates \<Rightarrow> jsval \<times> jsval" where
  "calculateRowAndColumn L coords =
     (let isOddColumn = js_gt (Y (V1 coords)) (Y (V2 coords));
          (x, y) = (if isOddColumn then (X (V2 coords), Y (V2 coords))
                    else (X (V3 coords), Y (V3 coords)));
          col0 = key_num (getMapKeyUsingValue (COL_MAP L) x);
          col = (if isOddColumn then col0 else js_add (parseInt (Val col0)) (Num 1));
          row = key_val (getMapKeyUsingValue (ROW_MAP L) y);
          actualCoords = calculateCoordinates L row col
      in if JSON_stringify coords \<noteq> JSON_stringify actualCoords then (Str '''', Str '''')
         else (row, Val col))"

subsection \<open>The validation guard\<close>

text \<open>A \<^verbatim>\<open>throw\<close> of a string is the left summand; \<^verbatim>\<open>includes\<close> finds strings only.\<close>

fun ROW_CHARS_includes :: "TriangleLayout \<Rightarrow> jsval \<Rightarrow> bool" where
  "ROW_CHARS_includes L (Str r) = (r \<in> set (ROW_CHARS L))"
| "ROW_CHARS_includes L _ = False"

definition isValidRowAndCol :: "TriangleLayout \<Rightarrow> jsval \<Rightarrow> jsnum \<Rightarrow> string + bool" where
  "isValidRowAndCol L row col =
     (if \<not> ROW_CHARS_includes L row
      then Inl (''Row ['' @ ToString row @ ''] is not a valid row character'')
      else if isNaN col \<or> js_lt col (Num 1) \<or> js_gt col (Num (MAX_COLS L))
      then Inl ''Invalid column number''
      else Inr True)"

subsection \<open>The self-test\<close>

text \<open>One pass of the inner loop body, on the pair of the output and the error text.\<close>

definition testLayout_cell ::
  "TriangleLayout \<Rightarrow> string \<Rightarrow> int \<Rightarrow> string \<times> string \<Rightarrow> string \<times> string" where
  "testLayout_cell L rowKey colKey st =
     (let (testOutput, errors) = st;
          testOutput = testOutput @ ''-----------------------\<newline>'';
          testOutput = testOutput @ ''Finding coordinates for ['' @ rowKey
                         @ NumberToString colKey @ ''] ...\<newline>'';
          coords = calculateCoordinates L (Str rowKey) (Num colKey);
          testOutput = testOutput @ ''Found coordinates:\<newline>'';
          testOutput = testOutput @ JSON_stringify coords @ ''\<newline>'';
          testOutput = testOutput @ ''Using above coordinates to find row and column ...\<newline>'';
          (row, col) = calculateRowAndColumn L coords;
          (testOutput, errors) =
            (if js_strict_eq_val row (Str rowKey)
             then (testOutput @ ''Input row ['' @ rowKey @ ''] matches calculated row [''
                     @ ToString row @ '']\<newline>'', errors)
             else (testOutput, errors @ ''Input ['' @ rowKey @ NumberToString colKey
                     @ ''] does NOT match calculated row ['' @ ToString row @ '']\<newline>''));
          (testOutput, errors) =
            (if js_strict_eq (parseInt col) (parseInt (Val (Num colKey)))
             then (testOutput @ ''Input column ['' @ NumberToString colKey
                     @ ''] matches calculated column ['' @ ToString col @ '']\<newline>'', errors)
             else (testOutput, errors @ ''Input ['' @ rowKey @ NumberToString colKey
                     @ ''] does NOT match calculated column ['' @ ToString col @ '']\<newline>''))
      in (testOutput, errors))"

definition testLayout_loop :: "TriangleLayout \<Rightarrow> string \<times> string" where
  "testLayout_loop L =
     fold (\<lambda>rowKey st. fold (\<lambda>colKey st. testLayout_cell L rowKey colKey st)
                          (Map_keys (COL_MAP L)) st)
          (Map_keys (ROW_MAP L)) ([], [])"

definition testLayout :: "TriangleLayout \<Rightarrow> string" where
  "testLayout L =
     (let (testOutput, errors) = testLayout_loop L;
          errors = (if errors \<noteq> [] then ''Found errors:\<newline>'' @ errors
                    else ''No errors found!\<newline>'')
      in errors @ testOutput)"

section \<open>Predicates used in the statements and proofs\<close>

text \<open>A cell of the grid: a row among the row characters and a column from 1 to \<^verbatim>\<open>MAX_COLS\<close>.\<close>

definition valid_cell :: "TriangleLayout \<Rightarrow> string \<Rightarrow> int \<Rightarrow> bool" where
  "valid_cell L row col = (row \<in> set (ROW_CHARS L) \<and> 1 \<le> col \<and> col \<le> MAX_COLS L)"

fun is_Num :: "jsnum \<Rightarrow> bool" where
  "is_Num (Num n) = True"
| "is_Num _ = False"

text \<open>The integers that a double holds exactly: magnitude at most \<open>2^53\<close>.\<close>

definition exact_int :: "int \<Rightarrow> bool" where
  "exact_int n = (- (2 ^ 53) \<le> n \<and> n \<le> 2 ^ 53)"

fun is_exact :: "jsnum \<Rightarrow> bool" where
  "is_exact (Num n) = exact_int n"
| "is_exact _ = False"

text \<open>A triple of three integer coordinates, all in the exact range.\<close>

definition exact_triple :: "TriangleCoordinates \<Rightarrow> bool" where
  "exact_triple t = (is_exact (X (V1 t)) \<and> is_exact (Y (V1 t)) \<and> is_exact (X (V2 t))
                     \<and> is_exact (Y (V2 t)) \<and> is_exact (X (V3 t)) \<and> is_exact (Y (V3 t)))"

text \<open>A triple whose six fields are numbers.\<close>

definition all_numbers :: "TriangleCoordinates \<Rightarrow> bool" where
  "all_numbers t = (is_Num (X (V1 t)) \<and> is_Num (Y (V1 t)) \<and> is_Num (X (V2 t))
                    \<and> is_Num (Y (V2 t)) \<and> is_Num (X (V3 t)) \<and> is_Num (Y (V3 t)))"

definition is_digit_char :: "char \<Rightarrow> bool" where
  "is_digit_char c = (c \<in> set ''0123456789'')"

definition is_number_char :: "char \<Rightarrow> bool" where
  "is_number_char c = (is_digit_char c \<or> c = CHR ''-'')"

text \<open>
  The text that one pass of the loop body of \<^verbatim>\<open>testLayout\<close> appends to the output when both
  of its comparisons succeed: the seven lines of the cell, with the row and the column
  printed twice each in the last two.
\<close>

definition cell_report :: "TriangleLayout \<Rightarrow> string \<Rightarrow> int \<Rightarrow> string" where
  "cell_report L rowKey colKey =
     ''-----------------------\<newline>''
     @ ''Finding coordinates for ['' @ rowKey @ NumberToString colKey @ ''] ...\<newline>''
     @ ''Found coordinates:\<newline>''
     @ JSON_stringify (calculateCoordinates L (Str rowKey) (Num colKey)) @ ''\<newline>''
     @ ''Using above coordinates to find row and column ...\<newline>''
     @ ''Input row ['' @ rowKey @ ''] matches calculated row ['' @ rowKey @ '']\<newline>''
     @ ''Input column ['' @ NumberToString colKey @ ''] matches calculated column [''
     @ NumberToString colKey @ '']\<newline>''"

text \<open>
  The two comparisons of the loop body of \<^verbatim>\<open>testLayout\<close> for one cell: the row that the
  inverse returns for the vertices of the cell is strictly equal to the row key, and
  \<^verbatim>\<open>parseInt\<close> of the column it returns is strictly equal to \<^verbatim>\<open>parseInt\<close> of the column key.
\<close>

definition cell_matches :: "TriangleLayout \<Rightarrow> string \<Rightarrow> int \<Rightarrow> bool" where
  "cell_matches L rowKey colKey =
     (let (row, col) = calculateRowAndColumn L (calculateCoordinates L (Str rowKey) (Num colKey))
      in js_strict_eq_val row (Str rowKey)
         \<and> js_strict_eq (parseInt col) (parseInt (Val (Num colKey))))"

section \<open>Printing numbers and coordinates\<close>

lemma nat_below_10: "(k::nat) < 10 \<Longrightarrow> k \<in> {0, 1, 2, 3, 4, 5, 6, 7, 8, 9}"
  by simp arith

lemma digit_char_is_digit: "is_digit_char (digit_char d)"
proof -
  have "d mod 10 < 10" by simp
  then have "d mod 10 \<in> {0,1,2,3,4,5,6,7,8,9}" by (rule nat_below_10)
  then show ?thesis
    unfolding digit_char_def is_digit_char_def by (elim insertE) simp_all
qed

lemma digit_char_inj:
  assumes "a < 10" "b < 10" "digit_char a = digit_char b"
  shows "a = b"
proof -
  have A: "a \<in> {0,1,2,3,4,5,6,7,8,9}" using assms(1) by (rule nat_below_10)
  have B: "b \<in> {0,1,2,3,4,5,6,7,8,9}" using assms(2) by (rule nat_below_10)
  from A B assms(3) show ?thesis
    unfolding digit_char_def by (elim insertE) simp_all
qed

lemma decimal_digits_chars: "\<forall>c \<in> set (decimal_digits n). is_digit_char c"
proof (induction n rule: decimal_digits.induct)
  case (1 n)
  show ?case
  proof (cases "n < 10")
    case True
    then show ?thesis by (simp add: decimal_digits.simps [of n] digit_char_is_digit)
  next
    case False
    with 1 show ?thesis by (simp add: decimal_digits.simps [of n] digit_char_is_digit)
  qed
qed

lemma decimal_digits_nonempty: "decimal_digits n \<noteq> []"
  by (simp add: decimal_digits.simps [of n])

lemma decimal_digits_inj: "decimal_digits n = decimal_digits m \<Longrightarrow> n = m"
proof (induction n arbitrary: m rule: decimal_digits.induct)
  case (1 n)
  show ?case
  proof (cases "n < 10")
    case n: True
    show ?thesis
    proof (cases "m < 10")
      case True
      with n "1.prems" show ?thesis
        by (simp add: decimal_digits.simps [of n] decimal_digits.simps [of m] digit_char_inj)
    next
      case False
      with n "1.prems" show ?thesis
        by (simp add: decimal_digits.simps [of n] decimal_digits.simps [of m]
            decimal_digits_nonempty [THEN not_sym])
    qed
  next
    case n: False
    show ?thesis
    proof (cases "m < 10")
      case True
      with n "1.prems" show ?thesis
        by (simp add: decimal_digits.simps [of n] decimal_digits.simps [of m]
            decimal_digits_nonempty)
    next
      case False
      with n "1.prems" have eq: "decimal_digits (n div 10) = decimal_digits (m div 10)"
        and d: "digit_char (n mod 10) = digit_char (m mod 10)"
        by (simp_all add: decimal_digits.simps [of n] decimal_digits.simps [of m])
      from "1.IH" [OF n eq] have "n div 10 = m div 10" .
      moreover from d have "n mod 10 = m mod 10" by (intro digit_char_inj) simp_all
      ultimately show ?thesis by (metis div_mult_mod_eq)
    qed
  qed
qed

lemma NumberToString_chars: "c \<in> set (NumberToString n) \<Longrightarrow> is_number_char c"
  using decimal_digits_chars by (auto simp: NumberToString_def is_number_char_def split: if_splits)

lemma NumberToString_nonempty: "NumberToString n \<noteq> []"
  by (simp add: NumberToString_def decimal_digits_nonempty)

lemma NumberToString_inj: "NumberToString n = NumberToString m \<Longrightarrow> n = m"
proof -
  assume eq: "NumberToString n = NumberToString m"
  have nd: "\<And>k. hd (decimal_digits k) \<noteq> CHR ''-''"
  proof -
    fix k
    have "hd (decimal_digits k) \<in> set (decimal_digits k)"
      using decimal_digits_nonempty by simp
    then have "is_digit_char (hd (decimal_digits k))" using decimal_digits_chars by blast
    then show "hd (decimal_digits k) \<noteq> CHR ''-''" by (auto simp: is_digit_char_def)
  qed
  consider "n < 0" "m < 0" | "n \<ge> 0" "m \<ge> 0" | "n < 0" "m \<ge> 0" | "n \<ge> 0" "m < 0"
    by linarith
  then show ?thesis
  proof cases
    case 1
    with eq have "decimal_digits (nat (- n)) = decimal_digits (nat (- m))"
      by (simp add: NumberToString_def)
    then have "nat (- n) = nat (- m)" by (rule decimal_digits_inj)
    with 1 show ?thesis by simp
  next
    case 2
    with eq have "decimal_digits (nat n) = decimal_digits (nat m)"
      by (simp add: NumberToString_def)
    then have "nat n = nat m" by (rule decimal_digits_inj)
    with 2 show ?thesis by simp
  next
    case 3
    with eq have "CHR ''-'' # decimal_digits (nat (- n)) = decimal_digits (nat m)"
      by (simp add: NumberToString_def)
    then have "hd (decimal_digits (nat m)) = CHR ''-''" by (metis list.sel(1))
    with nd show ?thesis by blast
  next
    case 4
    with eq have "decimal_digits (nat n) = CHR ''-'' # decimal_digits (nat (- m))"
      by (simp add: NumberToString_def)
    then have "hd (decimal_digits (nat n)) = CHR ''-''" by (metis list.sel(1))
    with nd show ?thesis by blast
  qed
qed

lemma token_split:
  "xs @ a # r = ys @ b # r' \<Longrightarrow> a \<notin> set ys \<Longrightarrow> b \<notin> set xs \<Longrightarrow> xs = ys \<and> a = b \<and> r = r'"
proof (induction xs arbitrary: ys)
  case Nil
  then show ?case by (cases ys) auto
next
  case (Cons x xs)
  then show ?case by (cases ys) auto
qed

lemma NumberToString_no_delim:
  "CHR '','' \<notin> set (NumberToString n)" "CHR ''}'' \<notin> set (NumberToString n)"
  using NumberToString_chars [of _ n] by (auto simp: is_number_char_def is_digit_char_def)

lemma NumberToString_not_null: "NumberToString n @ r \<noteq> CHR ''n'' # t"
proof
  assume eq: "NumberToString n @ r = CHR ''n'' # t"
  obtain c cs where N: "NumberToString n = c # cs"
    using NumberToString_nonempty [of n] by (cases "NumberToString n") auto
  with eq have "c = CHR ''n''" by simp
  moreover have "is_number_char c" using N NumberToString_chars [of c n] by simp
  ultimately show False by (simp add: is_number_char_def is_digit_char_def)
qed

lemma number_token:
  assumes "NumberToString a @ d # r = NumberToString b @ e # r'"
    and "d = CHR '','' \<or> d = CHR ''}''" and "e = CHR '','' \<or> e = CHR ''}''"
  shows "a = b \<and> d = e \<and> r = r'"
proof -
  have "d \<notin> set (NumberToString b)" "e \<notin> set (NumberToString a)"
    using assms(2,3) NumberToString_no_delim by auto
  from token_split [OF assms(1) this] have "NumberToString a = NumberToString b" "d = e" "r = r'"
    by simp_all
  then show ?thesis using NumberToString_inj by blast
qed

lemma JSON_Coordinate_inj:
  assumes "JSON_Coordinate \<lparr>X = Num a, Y = Num b\<rparr> @ r = JSON_Coordinate q @ r'"
  shows "q = \<lparr>X = Num a, Y = Num b\<rparr> \<and> r = r'"
proof -
  obtain qx qy where q: "q = \<lparr>X = qx, Y = qy\<rparr>" by (cases q) auto
  show ?thesis
  proof (cases qx)
    case Undefined
    with assms q show ?thesis by (cases qy) (simp_all add: JSON_Coordinate_def)
  next
    case NaN
    with assms q show ?thesis
      by (cases qy) (simp_all add: JSON_Coordinate_def NumberToString_not_null)
  next
    case (Num a')
    show ?thesis
    proof (cases qy)
      case Undefined
      with assms q Num
      have "NumberToString a @ CHR '','' # (''\"Y\":'' @ NumberToString b @ ''}'' @ r)
            = NumberToString a' @ CHR ''}'' # r'"
        by (simp add: JSON_Coordinate_def)
      from number_token [OF this] show ?thesis by simp
    next
      case NaN
      with assms q Num
      have "NumberToString a @ CHR '','' # (''\"Y\":'' @ NumberToString b @ ''}'' @ r)
            = NumberToString a' @ CHR '','' # (''\"Y\":null}'' @ r')"
        by (simp add: JSON_Coordinate_def)
      from number_token [OF this] show ?thesis by (simp add: NumberToString_not_null)
    next
      case b': (Num b')
      with assms q Num
      have "NumberToString a @ CHR '','' # (''\"Y\":'' @ NumberToString b @ ''}'' @ r)
            = NumberToString a' @ CHR '','' # (''\"Y\":'' @ NumberToString b' @ ''}'' @ r')"
        by (simp add: JSON_Coordinate_def)
      from number_token [OF this] have a: "a = a'"
        and "NumberToString b @ CHR ''}'' # r = NumberToString b' @ CHR ''}'' # r'"
        by simp_all
      from number_token [OF this(2)] a q Num b' show ?thesis by simp
    qed
  qed
qed

lemma is_Num_iff: "is_Num v \<longleftrightarrow> (\<exists>n. v = Num n)"
  by (cases v) simp_all

lemma JSON_stringify_inj:
  assumes "JSON_stringify c = JSON_stringify t" and "all_numbers c"
  shows "t = c"
proof -
  obtain a1 b1 a2 b2 a3 b3 where
    c: "c = \<lparr>V1 = \<lparr>X = Num a1, Y = Num b1\<rparr>, V2 = \<lparr>X = Num a2, Y = Num b2\<rparr>,
             V3 = \<lparr>X = Num a3, Y = Num b3\<rparr>\<rparr>"
    using assms(2) by (cases c, cases "V1 c", cases "V2 c", cases "V3 c") (auto simp: all_numbers_def is_Num_iff)
  obtain t1 t2 t3 where t: "t = \<lparr>V1 = t1, V2 = t2, V3 = t3\<rparr>" by (cases t) auto
  from assms(1) c t
  have 1: "JSON_Coordinate \<lparr>X = Num a1, Y = Num b1\<rparr>
             @ ('',\"V2\":'' @ JSON_Coordinate \<lparr>X = Num a2, Y = Num b2\<rparr>
                @ '',\"V3\":'' @ JSON_Coordinate \<lparr>X = Num a3, Y = Num b3\<rparr> @ ''}'')
           = JSON_Coordinate t1
             @ ('',\"V2\":'' @ JSON_Coordinate t2 @ '',\"V3\":'' @ JSON_Coordinate t3 @ ''}'')"
    by (simp add: JSON_stringify_def)
  from JSON_Coordinate_inj [OF 1] have t1: "t1 = \<lparr>X = Num a1, Y = Num b1\<rparr>"
    and 2: "JSON_Coordinate \<lparr>X = Num a2, Y = Num b2\<rparr>
             @ ('',\"V3\":'' @ JSON_Coordinate \<lparr>X = Num a3, Y = Num b3\<rparr> @ ''}'')
           = JSON_Coordinate t2 @ ('',\"V3\":'' @ JSON_Coordinate t3 @ ''}'')"
    by simp_all
  from JSON_Coordinate_inj [OF 2] have t2: "t2 = \<lparr>X = Num a2, Y = Num b2\<rparr>"
    and 3: "JSON_Coordinate \<lparr>X = Num a3, Y = Num b3\<rparr> @ ''}'' = JSON_Coordinate t3 @ ''}''"
    by simp_all
  from JSON_Coordinate_inj [OF 3] have "t3 = \<lparr>X = Num a3, Y = Num b3\<rparr>" by simp
  with t1 t2 c t show ?thesis by simp
qed

subsection \<open>Reading the printed keys back\<close>

lemma parseInt_keys:
  "parseInt (Val (Num 1)) = Num 1" "parseInt (Val (Num 2)) = Num 2"
  "parseInt (Val (Num 3)) = Num 3" "parseInt (Val (Num 4)) = Num 4"
  "parseInt (Val (Num 5)) = Num 5" "parseInt (Val (Num 6)) = Num 6"
  "parseInt (Val (Num 7)) = Num 7" "parseInt (Val (Num 8)) = Num 8"
  "parseInt (Val (Num 9)) = Num 9" "parseInt (Val (Num 10)) = Num 10"
  "parseInt (Val (Num 11)) = Num 11" "parseInt (Val (Num 12)) = Num 12"
  by (simp_all add: parseInt_def NumberToString_def decimal_digits.simps digit_char_def
      parseInt_string_def parse_digits_def is_whitespace_def digit_value_def)

lemma parseInt_not_numbers:
  "parseInt (Val Undefined) = NaN" "parseInt (Val NaN) = NaN" "parseInt (Str []) = NaN"
  by (simp_all add: parseInt_def parseInt_string_def parse_digits_def is_whitespace_def
      digit_value_def)

section \<open>The constructed layout\<close>

lemma layout_new_explicit:
  "s \<noteq> 0 \<Longrightarrow> TriangleLayout_new (Num s) =
     \<lparr>SCALE = Num s, ROW_CHARS = [''A'', ''B'', ''C'', ''D'', ''E'', ''F''],
      ROW_MAP = [(''A'', Num 0), (''B'', Num s), (''C'', Num (s * 2)), (''D'', Num (s * 3)),
                 (''E'', Num (s * 4)), (''F'', Num (s * 5))],
      MAX_COLS = 12,
      COL_MAP = [(1, Num 0), (2, Num 0), (3, Num s), (4, Num s), (5, Num (s * 2)),
                 (6, Num (s * 2)), (7, Num (s * 3)), (8, Num (s * 3)), (9, Num (s * 4)),
                 (10, Num (s * 4)), (11, Num (s * 5)), (12, Num (s * 5))]\<rparr>"
  by (simp add: TriangleLayout_new_def Let_def upt_rec_numeral upto_rec_numeral)

lemma valid_cell_cases:
  assumes "s \<noteq> 0" "valid_cell (TriangleLayout_new (Num s)) r c"
  shows "r \<in> {''A'', ''B'', ''C'', ''D'', ''E'', ''F''}"
    and "c \<in> {1, 2, 3, 4, 5, 6, 7, 8, 9, 10, 11, 12}"
proof -
  from assms show "r \<in> {''A'', ''B'', ''C'', ''D'', ''E'', ''F''}"
    by (simp add: valid_cell_def layout_new_explicit)
  from assms have "1 \<le> c" "c \<le> 12" by (simp_all add: valid_cell_def layout_new_explicit)
  then show "c \<in> {1, 2, 3, 4, 5, 6, 7, 8, 9, 10, 11, 12}" by simp arith
qed

lemma roundtrip_cell:
  assumes "0 < s" "valid_cell (TriangleLayout_new (Num s)) r c"
  shows "calculateRowAndColumn (TriangleLayout_new (Num s))
           (calculateCoordinates (TriangleLayout_new (Num s)) (Str r) (Num c))
         = (Str r, Val (Num c))"
proof -
  from assms have s: "s \<noteq> 0" by simp
  note cases = valid_cell_cases [OF s assms(2)]
  from cases(1) cases(2) assms(1) show ?thesis
    by (elim insertE emptyE)
       (simp_all add: layout_new_explicit calculateCoordinates_def calculateRowAndColumn_def
          getMapKeyUsingValue_def Map_keys_def key_num_def key_val_def js_strict_eq_def Let_def
          parseInt_keys)
qed

lemma parseInt_valid:
  assumes "s \<noteq> 0" "valid_cell (TriangleLayout_new (Num s)) r c"
  shows "parseInt (Val (Num c)) = Num c"
  using valid_cell_cases(2) [OF assms] by (elim insertE emptyE) (simp_all add: parseInt_keys)

lemma isEvenColumn_iff: "js_strict_eq (js_rem (Num c) (Num 2)) (Num 0) \<longleftrightarrow> even c"
proof -
  have "sgn c * (\<bar>c\<bar> mod 2) = 0 \<longleftrightarrow> even c"
    by (cases "c = 0") (auto simp: sgn_if even_iff_mod_2_eq_zero)
  then show ?thesis by (simp add: js_strict_eq_def)
qed

lemma origins_numbers:
  assumes "0 < s" "valid_cell (TriangleLayout_new (Num s)) r c"
  shows "\<exists>x y. Map_get (COL_MAP (TriangleLayout_new (Num s))) c = Num x
           \<and> Map_get (ROW_MAP (TriangleLayout_new (Num s))) r = Num y
           \<and> 0 \<le> x \<and> x \<le> 5 * s \<and> 0 \<le> y \<and> y \<le> 5 * s"
proof -
  from assms(1) have s: "s \<noteq> 0" by simp
  note cases = valid_cell_cases [OF s assms(2)]
  from cases(2) assms(1)
  have "\<exists>x. Map_get (COL_MAP (TriangleLayout_new (Num s))) c = Num x \<and> 0 \<le> x \<and> x \<le> 5 * s"
    by (elim insertE emptyE) (simp_all add: layout_new_explicit)
  moreover from cases(1) assms(1)
  have "\<exists>y. Map_get (ROW_MAP (TriangleLayout_new (Num s))) r = Num y \<and> 0 \<le> y \<and> y \<le> 5 * s"
    by (elim insertE emptyE) (simp_all add: layout_new_explicit)
  ultimately show ?thesis by blast
qed

lemma SCALE_new: "s \<noteq> 0 \<Longrightarrow> SCALE (TriangleLayout_new (Num s)) = Num s"
  by (simp add: layout_new_explicit)

lemma forward_closed:
  assumes "0 < s" "valid_cell (TriangleLayout_new (Num s)) r c"
  shows "\<exists>x y. Map_get (COL_MAP (TriangleLayout_new (Num s))) c = Num x
           \<and> Map_get (ROW_MAP (TriangleLayout_new (Num s))) r = Num y
           \<and> 0 \<le> x \<and> x \<le> 5 * s \<and> 0 \<le> y \<and> y \<le> 5 * s
           \<and> calculateCoordinates (TriangleLayout_new (Num s)) (Str r) (Num c) =
               (if even c
                then \<lparr>V1 = \<lparr>X = Num (x + s), Y = Num y\<rparr>,
                      V2 = \<lparr>X = Num (x + s), Y = Num (y + s)\<rparr>,
                      V3 = \<lparr>X = Num x, Y = Num y\<rparr>\<rparr>
                else \<lparr>V1 = \<lparr>X = Num x, Y = Num (y + s)\<rparr>,
                      V2 = \<lparr>X = Num x, Y = Num y\<rparr>,
                      V3 = \<lparr>X = Num (x + s), Y = Num (y + s)\<rparr>\<rparr>)"
proof -
  from assms(1) have s: "s \<noteq> 0" by simp
  from origins_numbers [OF assms] obtain x y where
    xy: "Map_get (COL_MAP (TriangleLayout_new (Num s))) c = Num x"
        "Map_get (ROW_MAP (TriangleLayout_new (Num s))) r = Num y"
    and range: "0 \<le> x" "x \<le> 5 * s" "0 \<le> y" "y \<le> 5 * s" by blast
  from xy have "calculateCoordinates (TriangleLayout_new (Num s)) (Str r) (Num c) =
               (if even c
                then \<lparr>V1 = \<lparr>X = Num (x + s), Y = Num y\<rparr>,
                      V2 = \<lparr>X = Num (x + s), Y = Num (y + s)\<rparr>,
                      V3 = \<lparr>X = Num x, Y = Num y\<rparr>\<rparr>
                else \<lparr>V1 = \<lparr>X = Num x, Y = Num (y + s)\<rparr>,
                      V2 = \<lparr>X = Num x, Y = Num y\<rparr>,
                      V3 = \<lparr>X = Num (x + s), Y = Num (y + s)\<rparr>\<rparr>)"
    by (simp add: calculateCoordinates_def Let_def isEvenColumn_iff SCALE_new [OF s]
          del: js_rem.simps)
  with xy range show ?thesis by blast
qed

text \<open>With \<open>6 * s \<le> 2^53\<close> every coordinate that the forward map computes is in the exact
  range.\<close>

lemma forward_exact:
  assumes "0 < s" "6 * s \<le> 2 ^ 53" "valid_cell (TriangleLayout_new (Num s)) r c"
  shows "exact_triple (calculateCoordinates (TriangleLayout_new (Num s)) (Str r) (Num c))"
proof -
  from forward_closed [OF assms(1,3)] obtain x y where
    range: "0 \<le> x" "x \<le> 5 * s" "0 \<le> y" "y \<le> 5 * s"
    and eq: "calculateCoordinates (TriangleLayout_new (Num s)) (Str r) (Num c) =
               (if even c
                then \<lparr>V1 = \<lparr>X = Num (x + s), Y = Num y\<rparr>,
                      V2 = \<lparr>X = Num (x + s), Y = Num (y + s)\<rparr>,
                      V3 = \<lparr>X = Num x, Y = Num y\<rparr>\<rparr>
                else \<lparr>V1 = \<lparr>X = Num x, Y = Num (y + s)\<rparr>,
                      V2 = \<lparr>X = Num x, Y = Num y\<rparr>,
                      V3 = \<lparr>X = Num (x + s), Y = Num (y + s)\<rparr>\<rparr>)"
    by blast
  from range assms(1,2) have "exact_int x" "exact_int y" "exact_int (x + s)" "exact_int (y + s)"
    by (simp_all add: exact_int_def)
  with eq show ?thesis by (simp add: exact_triple_def)
qed

lemma exact_triple_numbers: "exact_triple t \<Longrightarrow> all_numbers t"
proof -
  have "is_Num v" if "is_exact v" for v using that by (cases v) simp_all
  then show "exact_triple t \<Longrightarrow> all_numbers t"
    by (simp add: exact_triple_def all_numbers_def)
qed

lemma parity_order:
  assumes "0 < s" "valid_cell (TriangleLayout_new (Num s)) r c"
  shows "js_gt (Y (V1 (calculateCoordinates (TriangleLayout_new (Num s)) (Str r) (Num c))))
               (Y (V2 (calculateCoordinates (TriangleLayout_new (Num s)) (Str r) (Num c))))
         \<longleftrightarrow> odd c"
    and "even c \<Longrightarrow>
         js_lt (Y (V1 (calculateCoordinates (TriangleLayout_new (Num s)) (Str r) (Num c))))
               (Y (V2 (calculateCoordinates (TriangleLayout_new (Num s)) (Str r) (Num c))))
         \<and> X (V1 (calculateCoordinates (TriangleLayout_new (Num s)) (Str r) (Num c)))
           = X (V2 (calculateCoordinates (TriangleLayout_new (Num s)) (Str r) (Num c)))"
proof -
  from assms(1) have s: "s \<noteq> 0" by simp
  from forward_closed [OF assms] assms(1)
  show "js_gt (Y (V1 (calculateCoordinates (TriangleLayout_new (Num s)) (Str r) (Num c))))
               (Y (V2 (calculateCoordinates (TriangleLayout_new (Num s)) (Str r) (Num c))))
         \<longleftrightarrow> odd c"
    by (cases "even c") auto
  from forward_closed [OF assms] assms(1)
  show "even c \<Longrightarrow>
         js_lt (Y (V1 (calculateCoordinates (TriangleLayout_new (Num s)) (Str r) (Num c))))
               (Y (V2 (calculateCoordinates (TriangleLayout_new (Num s)) (Str r) (Num c))))
         \<and> X (V1 (calculateCoordinates (TriangleLayout_new (Num s)) (Str r) (Num c)))
           = X (V2 (calculateCoordinates (TriangleLayout_new (Num s)) (Str r) (Num c)))"
    by auto
qed

lemma layout_constants:
  "ROW_CHARS (TriangleLayout_new scale) = [''A'', ''B'', ''C'', ''D'', ''E'', ''F'']"
  "MAX_COLS (TriangleLayout_new scale) = 12"
  by (simp_all add: TriangleLayout_new_def Let_def)

section \<open>The inverse on integer triples\<close>

lemma Map_get_Num_key: "Map_get m k = Num v \<Longrightarrow> k \<in> set (Map_keys m)"
  by (induction m) (auto simp: Map_keys_def split: if_splits)

lemma inverse_not_sentinel:
  assumes "calculateRowAndColumn L c \<noteq> (Str '''', Str '''')"
  shows "\<exists>row col. calculateRowAndColumn L c = (row, Val col)
           \<and> JSON_stringify c = JSON_stringify (calculateCoordinates L row col)"
  using assms
  by (auto simp: calculateRowAndColumn_def Let_def split: if_splits prod.splits)

lemma calculateCoordinates_reference:
  "(V2 (calculateCoordinates L row col) = \<lparr>X = COL_MAP_get L col, Y = ROW_MAP_get L row\<rparr>)
   \<or> (V3 (calculateCoordinates L row col) = \<lparr>X = COL_MAP_get L col, Y = ROW_MAP_get L row\<rparr>)"
  by (simp add: calculateCoordinates_def Let_def)

lemma all_numbers_valid:
  assumes "all_numbers (calculateCoordinates L row col)"
  shows "\<exists>r c. row = Str r \<and> col = Num c \<and> r \<in> set (Map_keys (ROW_MAP L))
           \<and> c \<in> set (Map_keys (COL_MAP L))"
proof -
  from assms calculateCoordinates_reference [of L row col]
  have x: "is_Num (COL_MAP_get L col)" and y: "is_Num (ROW_MAP_get L row)"
    by (auto simp: all_numbers_def)
  from x obtain c where c: "col = Num c" by (cases col) simp_all
  from y obtain r where r: "row = Str r" by (cases row) simp_all
  from x c have "c \<in> set (Map_keys (COL_MAP L))"
    by (auto simp: is_Num_iff dest: Map_get_Num_key)
  moreover from y r have "r \<in> set (Map_keys (ROW_MAP L))"
    by (auto simp: is_Num_iff dest: Map_get_Num_key)
  ultimately show ?thesis using c r by blast
qed

lemma keys_valid_cell:
  assumes "s \<noteq> 0" "r \<in> set (Map_keys (ROW_MAP (TriangleLayout_new (Num s))))"
    "c \<in> set (Map_keys (COL_MAP (TriangleLayout_new (Num s))))"
  shows "valid_cell (TriangleLayout_new (Num s)) r c"
  using assms by (auto simp: layout_new_explicit valid_cell_def Map_keys_def)

lemma inverse_accepts:
  assumes "0 < s" "all_numbers c"
    "calculateRowAndColumn (TriangleLayout_new (Num s)) c \<noteq> (Str '''', Str '''')"
  shows "\<exists>r col. calculateRowAndColumn (TriangleLayout_new (Num s)) c = (Str r, Val (Num col))
           \<and> valid_cell (TriangleLayout_new (Num s)) r col
           \<and> calculateCoordinates (TriangleLayout_new (Num s)) (Str r) (Num col) = c"
proof -
  let ?L = "TriangleLayout_new (Num s)"
  from inverse_not_sentinel [OF assms(3)] obtain row col where
    res: "calculateRowAndColumn ?L c = (row, Val col)"
    and js: "JSON_stringify c = JSON_stringify (calculateCoordinates ?L row col)"
    by blast
  from JSON_stringify_inj [OF js assms(2)] have eq: "calculateCoordinates ?L row col = c" .
  with assms(2) have "all_numbers (calculateCoordinates ?L row col)" by simp
  from all_numbers_valid [OF this] obtain r k where
    "row = Str r" "col = Num k" "r \<in> set (Map_keys (ROW_MAP ?L))"
    "k \<in> set (Map_keys (COL_MAP ?L))" by blast
  moreover from assms(1) have "s \<noteq> 0" by simp
  ultimately show ?thesis using res eq keys_valid_cell by blast
qed

lemma valid_cell_nonempty:
  "valid_cell (TriangleLayout_new (Num s)) r c \<Longrightarrow> s \<noteq> 0 \<Longrightarrow> r \<noteq> ''''"
  by (auto simp: valid_cell_def layout_new_explicit)

lemma default_layout: "TriangleLayout_new Undefined = TriangleLayout_new (Num 10)"
  by (simp add: TriangleLayout_new_def)

lemma sentinel_triple_no_cell:
  assumes "0 < s" "valid_cell (TriangleLayout_new (Num s)) r c"
  shows "calculateCoordinates (TriangleLayout_new (Num s)) (Str r) (Num c)
         \<noteq> \<lparr>V1 = \<lparr>X = Num 1, Y = Num 1\<rparr>, V2 = \<lparr>X = Num 2, Y = Num 2\<rparr>,
              V3 = \<lparr>X = Num 3, Y = Num 3\<rparr>\<rparr>"
proof
  assume eq: "calculateCoordinates (TriangleLayout_new (Num s)) (Str r) (Num c)
         = \<lparr>V1 = \<lparr>X = Num 1, Y = Num 1\<rparr>, V2 = \<lparr>X = Num 2, Y = Num 2\<rparr>,
              V3 = \<lparr>X = Num 3, Y = Num 3\<rparr>\<rparr>"
  show False
  proof (cases "even c")
    case True
    from parity_order(2) [OF assms True] eq show False by simp
  next
    case False
    with parity_order(1) [OF assms] eq show False by simp
  qed
qed

lemma coordinates_fields_eq:
  "a = b \<longleftrightarrow> X (V1 a) = X (V1 b) \<and> Y (V1 a) = Y (V1 b) \<and> X (V2 a) = X (V2 b)
     \<and> Y (V2 a) = Y (V2 b) \<and> X (V3 a) = X (V3 b) \<and> Y (V3 a) = Y (V3 b)"
  for a b :: TriangleCoordinates
  by (auto intro!: TriangleCoordinates.equality Coordinate.equality)

section \<open>The self-test loop\<close>

lemma testLayout_cell_ok:
  assumes "0 < s" "valid_cell (TriangleLayout_new (Num s)) r c"
  shows "testLayout_cell (TriangleLayout_new (Num s)) r c (out, errs)
         = (out @ cell_report (TriangleLayout_new (Num s)) r c, errs)"
proof -
  from assms(1) have s: "s \<noteq> 0" by simp
  show ?thesis
    by (simp add: testLayout_cell_def roundtrip_cell [OF assms] parseInt_valid [OF s assms(2)]
          js_strict_eq_def cell_report_def)
qed

lemma testLayout_columns:
  assumes "0 < s" "\<forall>c \<in> set cs. valid_cell (TriangleLayout_new (Num s)) r c"
  shows "fold (\<lambda>colKey st. testLayout_cell (TriangleLayout_new (Num s)) r colKey st) cs (out, errs)
         = (out @ concat (map (cell_report (TriangleLayout_new (Num s)) r) cs), errs)"
  using assms(2)
proof (induction cs arbitrary: out)
  case Nil
  then show ?case by simp
next
  case (Cons c cs)
  then show ?case by (simp add: testLayout_cell_ok [OF assms(1)])
qed

lemma testLayout_rows:
  assumes "0 < s" "\<forall>r \<in> set rs. \<forall>c \<in> set cs. valid_cell (TriangleLayout_new (Num s)) r c"
  shows "fold (\<lambda>rowKey st. fold (\<lambda>colKey st.
                 testLayout_cell (TriangleLayout_new (Num s)) rowKey colKey st) cs st)
              rs (out, errs)
         = (out @ concat (map (\<lambda>(r, c). cell_report (TriangleLayout_new (Num s)) r c)
                            (List.product rs cs)), errs)"
  using assms(2)
proof (induction rs arbitrary: out)
  case Nil
  then show ?case by simp
next
  case (Cons r rs)
  then show ?case by (simp add: testLayout_columns [OF assms(1)] comp_def)
qed

lemma layout_keys:
  assumes "s \<noteq> 0"
  shows "Map_keys (ROW_MAP (TriangleLayout_new (Num s))) = [''A'', ''B'', ''C'', ''D'', ''E'', ''F'']"
    and "Map_keys (COL_MAP (TriangleLayout_new (Num s))) = [1, 2, 3, 4, 5, 6, 7, 8, 9, 10, 11, 12]"
  using assms by (simp_all add: layout_new_explicit Map_keys_def)

lemma grid_valid:
  assumes "s \<noteq> 0"
  shows "\<forall>r \<in> set [''A'', ''B'', ''C'', ''D'', ''E'', ''F''].
           \<forall>c \<in> set [1, 2, 3, 4, 5, 6, 7, 8, 9, 10, 11, 12].
             valid_cell (TriangleLayout_new (Num s)) r c"
  by (simp add: valid_cell_def layout_constants)

lemma testLayout_loop_ok:
  assumes "0 < s"
  shows "testLayout_loop (TriangleLayout_new (Num s))
         = (concat (map (\<lambda>(r, c). cell_report (TriangleLayout_new (Num s)) r c)
              (List.product [''A'', ''B'', ''C'', ''D'', ''E'', ''F'']
                 [1, 2, 3, 4, 5, 6, 7, 8, 9, 10, 11, 12])), [])"
proof -
  from assms have s: "s \<noteq> 0" by simp
  have "testLayout_loop (TriangleLayout_new (Num s))
        = fold (\<lambda>rowKey st. fold (\<lambda>colKey st.
                 testLayout_cell (TriangleLayout_new (Num s)) rowKey colKey st)
                    [1, 2, 3, 4, 5, 6, 7, 8, 9, 10, 11, 12] st)
              [''A'', ''B'', ''C'', ''D'', ''E'', ''F''] ([], [])"
    unfolding testLayout_loop_def layout_keys [OF s] ..
  also have "\<dots> = ([] @ concat (map (\<lambda>(r, c). cell_report (TriangleLayout_new (Num s)) r c)
              (List.product [''A'', ''B'', ''C'', ''D'', ''E'', ''F'']
                 [1, 2, 3, 4, 5, 6, 7, 8, 9, 10, 11, 12])), [])"
    by (rule testLayout_rows [OF assms grid_valid [OF s]])
  finally show ?thesis by simp
qed

subsection \<open>The error text of any layout\<close>

text \<open>One pass appends to the error text, and it appends nothing exactly when both
  comparisons succeed.\<close>

lemma testLayout_cell_errors:
  "\<exists>out' e. testLayout_cell L r c (out, errs) = (out', errs @ e)
             \<and> (e = [] \<longleftrightarrow> cell_matches L r c)"
  by (auto simp: testLayout_cell_def cell_matches_def Let_def split: prod.splits)

lemma testLayout_columns_errors:
  "snd (fold (\<lambda>colKey st. testLayout_cell L r colKey st) cs (out, errs)) = []
   \<longleftrightarrow> errs = [] \<and> (\<forall>c \<in> set cs. cell_matches L r c)"
proof (induction cs arbitrary: out errs)
  case Nil
  then show ?case by simp
next
  case (Cons c cs)
  from testLayout_cell_errors [of L r c out errs] obtain out' e where
    step: "testLayout_cell L r c (out, errs) = (out', errs @ e)"
    and e: "e = [] \<longleftrightarrow> cell_matches L r c" by blast
  from Cons.IH [of out' "errs @ e"] step e show ?case by auto
qed

lemma testLayout_rows_errors:
  "snd (fold (\<lambda>rowKey st. fold (\<lambda>colKey st. testLayout_cell L rowKey colKey st) cs st)
          rs (out, errs)) = []
   \<longleftrightarrow> errs = [] \<and> (\<forall>r \<in> set rs. \<forall>c \<in> set cs. cell_matches L r c)"
proof (induction rs arbitrary: out errs)
  case Nil
  then show ?case by simp
next
  case (Cons r rs)
  obtain out' errs' where
    row: "fold (\<lambda>colKey st. testLayout_cell L r colKey st) cs (out, errs) = (out', errs')"
    by (cases "fold (\<lambda>colKey st. testLayout_cell L r colKey st) cs (out, errs)")
  from testLayout_columns_errors [of L r cs out errs] row
  have e: "errs' = [] \<longleftrightarrow> errs = [] \<and> (\<forall>c \<in> set cs. cell_matches L r c)" by simp
  from Cons.IH [of out' errs'] row e show ?case by auto
qed

lemma testLayout_loop_errors:
  "snd (testLayout_loop L) = []
   \<longleftrightarrow> (\<forall>r \<in> set (Map_keys (ROW_MAP L)). \<forall>c \<in> set (Map_keys (COL_MAP L)).
          cell_matches L r c)"
  unfolding testLayout_loop_def by (simp add: testLayout_rows_errors)

lemma testLayout_report:
  "testLayout L = (if snd (testLayout_loop L) \<noteq> []
                   then ''Found errors:\<newline>'' @ snd (testLayout_loop L)
                   else ''No errors found!\<newline>'') @ fst (testLayout_loop L)"
  by (simp add: testLayout_def split: prod.splits)

lemma negative_scale_mismatch: "\<not> cell_matches (TriangleLayout_new (Num (- 5))) ''A'' 1"
  by code_simp

section \<open>The claims\<close>

text \<open>
  C1 (round trip). For every positive integer scale \<open>s\<close> in the exact range
  (\<open>6 * s \<le> 2^53\<close>), every row among the six row characters and every column from 1 to 12,
  the vertices that \<^verbatim>\<open>calculateCoordinates\<close> computes are integers in the exact range, and
  \<^verbatim>\<open>calculateRowAndColumn\<close> applied to them returns the row and the column it started from.
\<close>

theorem roundtrip:
  assumes "0 < s" and "6 * s \<le> 2 ^ 53"
    and "valid_cell (TriangleLayout_new (Num s)) row col"
  shows "calculateRowAndColumn (TriangleLayout_new (Num s))
           (calculateCoordinates (TriangleLayout_new (Num s)) (Str row) (Num col))
         = (Str row, Val (Num col))
       \<and> exact_triple (calculateCoordinates (TriangleLayout_new (Num s)) (Str row) (Num col))"
  using roundtrip_cell [OF assms(1,3)] forward_exact [OF assms] by (rule conjI)

theorem roundtrip_witness:
  "(0::int) < 10 \<and> (6::int) * 10 \<le> 2 ^ 53
   \<and> valid_cell (TriangleLayout_new (Num 10)) ''B'' 4
   \<and> calculateRowAndColumn (TriangleLayout_new (Num 10))
       (calculateCoordinates (TriangleLayout_new (Num 10)) (Str ''B'') (Num 4))
     = (Str ''B'', Val (Num 4))"
proof -
  have v: "valid_cell (TriangleLayout_new (Num 10)) ''B'' 4"
    by (simp add: valid_cell_def layout_constants)
  have p: "(0::int) < 10" by simp
  have b: "(6::int) * 10 \<le> 2 ^ 53" by simp
  from roundtrip [OF p b v] p b v show ?thesis by simp
qed

text \<open>
  C2 (forward formula). For a positive scale in the exact range and a valid cell, the column
  origin \<open>x\<close> and the row origin \<open>y\<close> are numbers between 0 and five times the scale, and
  \<^verbatim>\<open>calculateCoordinates\<close> returns \<open>V1 = (x + scale, y)\<close>, \<open>V2 = (x + scale, y + scale)\<close>,
  \<open>V3 = (x, y)\<close> in an even column and \<open>V1 = (x, y + scale)\<close>, \<open>V2 = (x, y)\<close>,
  \<open>V3 = (x + scale, y + scale)\<close> in an odd one, every sum in the exact range. With the
  default scale 10, cell B3 has \<open>V1 = (10, 20)\<close>, \<open>V2 = (10, 10)\<close>, \<open>V3 = (20, 20)\<close>.
\<close>

theorem forward_formula:
  assumes "0 < s" and "6 * s \<le> 2 ^ 53"
    and "valid_cell (TriangleLayout_new (Num s)) row col"
  shows "(\<exists>x y. Map_get (COL_MAP (TriangleLayout_new (Num s))) col = Num x
           \<and> Map_get (ROW_MAP (TriangleLayout_new (Num s))) row = Num y
           \<and> 0 \<le> x \<and> 0 \<le> y \<and> exact_int (x + s) \<and> exact_int (y + s)
           \<and> calculateCoordinates (TriangleLayout_new (Num s)) (Str row) (Num col) =
               (if even col
                then \<lparr>V1 = \<lparr>X = Num (x + s), Y = Num y\<rparr>,
                      V2 = \<lparr>X = Num (x + s), Y = Num (y + s)\<rparr>,
                      V3 = \<lparr>X = Num x, Y = Num y\<rparr>\<rparr>
                else \<lparr>V1 = \<lparr>X = Num x, Y = Num (y + s)\<rparr>,
                      V2 = \<lparr>X = Num x, Y = Num y\<rparr>,
                      V3 = \<lparr>X = Num (x + s), Y = Num (y + s)\<rparr>\<rparr>))
       \<and> calculateCoordinates (TriangleLayout_new Undefined) (Str ''B'') (Num 3)
           = \<lparr>V1 = \<lparr>X = Num 10, Y = Num 20\<rparr>, V2 = \<lparr>X = Num 10, Y = Num 10\<rparr>,
              V3 = \<lparr>X = Num 20, Y = Num 20\<rparr>\<rparr>"
proof -
  from forward_closed [OF assms(1,3)] obtain x y where
    xy: "Map_get (COL_MAP (TriangleLayout_new (Num s))) col = Num x"
        "Map_get (ROW_MAP (TriangleLayout_new (Num s))) row = Num y"
    and range: "0 \<le> x" "x \<le> 5 * s" "0 \<le> y" "y \<le> 5 * s"
    and eq: "calculateCoordinates (TriangleLayout_new (Num s)) (Str row) (Num col) =
               (if even col
                then \<lparr>V1 = \<lparr>X = Num (x + s), Y = Num y\<rparr>,
                      V2 = \<lparr>X = Num (x + s), Y = Num (y + s)\<rparr>,
                      V3 = \<lparr>X = Num x, Y = Num y\<rparr>\<rparr>
                else \<lparr>V1 = \<lparr>X = Num x, Y = Num (y + s)\<rparr>,
                      V2 = \<lparr>X = Num x, Y = Num y\<rparr>,
                      V3 = \<lparr>X = Num (x + s), Y = Num (y + s)\<rparr>\<rparr>)"
    by blast
  from range assms(1,2) have ex: "exact_int (x + s)" "exact_int (y + s)"
    by (simp_all add: exact_int_def)
  have "calculateCoordinates (TriangleLayout_new Undefined) (Str ''B'') (Num 3)
           = \<lparr>V1 = \<lparr>X = Num 10, Y = Num 20\<rparr>, V2 = \<lparr>X = Num 10, Y = Num 10\<rparr>,
              V3 = \<lparr>X = Num 20, Y = Num 20\<rparr>\<rparr>"
    by (simp add: default_layout layout_new_explicit calculateCoordinates_def js_strict_eq_def
          Let_def)
  with xy range(1,3) ex eq show ?thesis by blast
qed

theorem forward_formula_witness:
  "(0::int) < 10 \<and> (6::int) * 10 \<le> 2 ^ 53
   \<and> valid_cell (TriangleLayout_new (Num 10)) ''A'' 2
   \<and> calculateCoordinates (TriangleLayout_new (Num 10)) (Str ''A'') (Num 2)
     = \<lparr>V1 = \<lparr>X = Num 10, Y = Num 0\<rparr>, V2 = \<lparr>X = Num 10, Y = Num 10\<rparr>,
        V3 = \<lparr>X = Num 0, Y = Num 0\<rparr>\<rparr>"
proof -
  have v: "valid_cell (TriangleLayout_new (Num 10)) ''A'' 2"
    by (simp add: valid_cell_def layout_constants)
  have p: "(0::int) < 10" by simp
  have b: "(6::int) * 10 \<le> 2 ^ 53" by simp
  from forward_formula [OF p b v] p b v show ?thesis
    by (simp add: layout_new_explicit)
qed

text \<open>
  C3 (the inverse is total and rejects). \<^verbatim>\<open>calculateRowAndColumn\<close> has no error result: for
  every triple it returns a pair. On a triple of three integer coordinates in the exact
  range, with a positive scale in the exact range, it returns the pair of empty strings
  exactly when the triple is not the image of a valid cell under \<^verbatim>\<open>calculateCoordinates\<close>;
  otherwise it returns a valid row and column whose vertices are the triple. The triple
  \<open>(1,1), (2,2), (3,3)\<close> gives the pair of empty strings.
\<close>

theorem inverse_total_and_rejects:
  assumes "0 < s" and "6 * s \<le> 2 ^ 53" and "exact_triple c"
  shows "(calculateRowAndColumn (TriangleLayout_new (Num s)) c = (Str '''', Str '''')
           \<longleftrightarrow> \<not> (\<exists>row col. valid_cell (TriangleLayout_new (Num s)) row col
                  \<and> calculateCoordinates (TriangleLayout_new (Num s)) (Str row) (Num col) = c))
       \<and> (calculateRowAndColumn (TriangleLayout_new (Num s)) c \<noteq> (Str '''', Str '''')
           \<longrightarrow> (\<exists>row col. calculateRowAndColumn (TriangleLayout_new (Num s)) c
                    = (Str row, Val (Num col))
                  \<and> valid_cell (TriangleLayout_new (Num s)) row col
                  \<and> calculateCoordinates (TriangleLayout_new (Num s)) (Str row) (Num col) = c))
       \<and> calculateRowAndColumn (TriangleLayout_new (Num s))
           \<lparr>V1 = \<lparr>X = Num 1, Y = Num 1\<rparr>, V2 = \<lparr>X = Num 2, Y = Num 2\<rparr>,
            V3 = \<lparr>X = Num 3, Y = Num 3\<rparr>\<rparr> = (Str '''', Str '''')"
proof -
  let ?L = "TriangleLayout_new (Num s)"
  let ?t = "\<lparr>V1 = \<lparr>X = Num 1, Y = Num 1\<rparr>, V2 = \<lparr>X = Num 2, Y = Num 2\<rparr>,
             V3 = \<lparr>X = Num 3, Y = Num 3\<rparr>\<rparr>"
  from assms(3) have c: "all_numbers c" by (rule exact_triple_numbers)
  have A: "calculateRowAndColumn ?L c \<noteq> (Str '''', Str '''')"
    if "valid_cell ?L r col" "calculateCoordinates ?L (Str r) (Num col) = c" for r col
  proof -
    from roundtrip_cell [OF assms(1) that(1)] that(2)
    have "calculateRowAndColumn ?L c = (Str r, Val (Num col))" by simp
    then show ?thesis by simp
  qed
  have t: "all_numbers ?t" by (simp add: all_numbers_def)
  have B: "calculateRowAndColumn ?L ?t = (Str '''', Str '''')"
  proof (rule ccontr)
    assume "calculateRowAndColumn ?L ?t \<noteq> (Str '''', Str '''')"
    from inverse_accepts [OF assms(1) t this] sentinel_triple_no_cell [OF assms(1)]
    show False by blast
  qed
  from A B inverse_accepts [OF assms(1) c] show ?thesis by blast
qed

theorem inverse_total_and_rejects_witness:
  "(0::int) < 10 \<and> (6::int) * 10 \<le> 2 ^ 53
   \<and> exact_triple \<lparr>V1 = \<lparr>X = Num 0, Y = Num 10\<rparr>, V2 = \<lparr>X = Num 0, Y = Num 0\<rparr>,
                   V3 = \<lparr>X = Num 10, Y = Num 10\<rparr>\<rparr>
   \<and> calculateRowAndColumn (TriangleLayout_new (Num 10))
       \<lparr>V1 = \<lparr>X = Num 0, Y = Num 10\<rparr>, V2 = \<lparr>X = Num 0, Y = Num 0\<rparr>,
        V3 = \<lparr>X = Num 10, Y = Num 10\<rparr>\<rparr> \<noteq> (Str '''', Str '''')
   \<and> calculateRowAndColumn (TriangleLayout_new (Num 10))
       \<lparr>V1 = \<lparr>X = Num 1, Y = Num 1\<rparr>, V2 = \<lparr>X = Num 2, Y = Num 2\<rparr>,
        V3 = \<lparr>X = Num 3, Y = Num 3\<rparr>\<rparr> = (Str '''', Str '''')"
proof -
  let ?c = "\<lparr>V1 = \<lparr>X = Num 0, Y = Num 10\<rparr>, V2 = \<lparr>X = Num 0, Y = Num 0\<rparr>,
             V3 = \<lparr>X = Num 10, Y = Num 10\<rparr>\<rparr>"
  have p: "(0::int) < 10" by simp
  have b: "(6::int) * 10 \<le> 2 ^ 53" by simp
  have n: "exact_triple ?c" by (simp add: exact_triple_def exact_int_def)
  have v: "valid_cell (TriangleLayout_new (Num 10)) ''A'' 1"
    by (simp add: valid_cell_def layout_constants)
  have f: "calculateCoordinates (TriangleLayout_new (Num 10)) (Str ''A'') (Num 1) = ?c"
    by (simp add: layout_new_explicit calculateCoordinates_def js_strict_eq_def Let_def)
  from inverse_total_and_rejects [OF p b n] v f p b n show ?thesis by blast
qed

text \<open>
  C4 (self-test). For any layout, \<^verbatim>\<open>testLayout\<close> returns the error summary followed by the
  log, and the error text is empty exactly when, for every row key and every column key,
  the row and the column that \<^verbatim>\<open>calculateRowAndColumn\<close> returns for the vertices of the cell
  compare equal to the keys. With a positive scale in the exact range the loop visits the
  72 cells of the grid, row by row and column by column, every cell compares equal, and
  the result is the no-errors line followed by the log of every cell.
\<close>

theorem testLayout_no_errors:
  assumes "0 < s" and "6 * s \<le> 2 ^ 53"
  shows "testLayout (TriangleLayout_new (Num s))
         = ''No errors found!\<newline>''
           @ concat (map (\<lambda>(r, c). cell_report (TriangleLayout_new (Num s)) r c)
               (List.product [''A'', ''B'', ''C'', ''D'', ''E'', ''F'']
                  [1, 2, 3, 4, 5, 6, 7, 8, 9, 10, 11, 12]))
       \<and> length (List.product [''A'', ''B'', ''C'', ''D'', ''E'', ''F'']
                  [1, 2, 3, 4, 5, 6, 7, 8, 9, 10, 11, 12 :: int]) = 72
       \<and> (\<forall>r \<in> set (Map_keys (ROW_MAP (TriangleLayout_new (Num s)))).
            \<forall>c \<in> set (Map_keys (COL_MAP (TriangleLayout_new (Num s)))).
              cell_matches (TriangleLayout_new (Num s)) r c)
       \<and> (snd (testLayout_loop L) = []
            \<longleftrightarrow> (\<forall>r \<in> set (Map_keys (ROW_MAP L)). \<forall>c \<in> set (Map_keys (COL_MAP L)).
                   cell_matches L r c))
       \<and> testLayout L = (if snd (testLayout_loop L) \<noteq> []
                          then ''Found errors:\<newline>'' @ snd (testLayout_loop L)
                          else ''No errors found!\<newline>'') @ fst (testLayout_loop L)"
proof -
  let ?L = "TriangleLayout_new (Num s)"
  have 1: "testLayout ?L
         = ''No errors found!\<newline>''
           @ concat (map (\<lambda>(r, c). cell_report ?L r c)
               (List.product [''A'', ''B'', ''C'', ''D'', ''E'', ''F'']
                  [1, 2, 3, 4, 5, 6, 7, 8, 9, 10, 11, 12]))"
    by (simp add: testLayout_def testLayout_loop_ok [OF assms(1)])
  have 2: "length (List.product [''A'', ''B'', ''C'', ''D'', ''E'', ''F'']
                  [1, 2, 3, 4, 5, 6, 7, 8, 9, 10, 11, 12 :: int]) = 72"
    by simp
  have "snd (testLayout_loop ?L) = []" by (simp add: testLayout_loop_ok [OF assms(1)])
  then have 3: "\<forall>r \<in> set (Map_keys (ROW_MAP ?L)). \<forall>c \<in> set (Map_keys (COL_MAP ?L)).
                  cell_matches ?L r c"
    by (simp only: testLayout_loop_errors)
  from 1 2 3 testLayout_loop_errors [of L] testLayout_report [of L] show ?thesis
    by (intro conjI)
qed

theorem testLayout_no_errors_witness:
  "(0::int) < 10 \<and> (6::int) * 10 \<le> 2 ^ 53
   \<and> testLayout (TriangleLayout_new (Num 10))
     = ''No errors found!\<newline>''
       @ concat (map (\<lambda>(r, c). cell_report (TriangleLayout_new (Num 10)) r c)
           (List.product [''A'', ''B'', ''C'', ''D'', ''E'', ''F'']
              [1, 2, 3, 4, 5, 6, 7, 8, 9, 10, 11, 12]))
   \<and> snd (testLayout_loop (TriangleLayout_new (Num (- 5)))) \<noteq> []"
proof -
  let ?N = "TriangleLayout_new (Num (- 5))"
  have p: "(0::int) < 10" by simp
  have b: "(6::int) * 10 \<le> 2 ^ 53" by simp
  note t = testLayout_no_errors [OF p b, of ?N]
  from t have 1: "testLayout (TriangleLayout_new (Num 10))
     = ''No errors found!\<newline>''
       @ concat (map (\<lambda>(r, c). cell_report (TriangleLayout_new (Num 10)) r c)
           (List.product [''A'', ''B'', ''C'', ''D'', ''E'', ''F'']
              [1, 2, 3, 4, 5, 6, 7, 8, 9, 10, 11, 12]))"
    by (rule conjunct1)
  from t have iff: "snd (testLayout_loop ?N) = []
            \<longleftrightarrow> (\<forall>r \<in> set (Map_keys (ROW_MAP ?N)). \<forall>c \<in> set (Map_keys (COL_MAP ?N)).
                   cell_matches ?N r c)"
    by (elim conjE)
  have keys: "''A'' \<in> set (Map_keys (ROW_MAP ?N))" "1 \<in> set (Map_keys (COL_MAP ?N))"
    by (simp_all add: layout_keys)
  have 2: "snd (testLayout_loop ?N) \<noteq> []"
  proof
    assume "snd (testLayout_loop ?N) = []"
    with iff keys have "cell_matches ?N ''A'' 1" by blast
    with negative_scale_mismatch show False by simp
  qed
  from p b 1 2 show ?thesis by (intro conjI)
qed

text \<open>
  C5 (injectivity). With a positive scale in the exact range
  (\<open>6 * s \<le> 2^53\<close>), two different valid cells have vertex triples
  of integers in the exact range that differ in at least one of the six coordinate fields.
\<close>

theorem calculateCoordinates_injective:
  assumes "0 < s" and "6 * s \<le> 2 ^ 53"
    and "valid_cell (TriangleLayout_new (Num s)) row1 col1"
    and "valid_cell (TriangleLayout_new (Num s)) row2 col2"
    and "(row1, col1) \<noteq> (row2, col2)"
  shows "(X (V1 (calculateCoordinates (TriangleLayout_new (Num s)) (Str row1) (Num col1)))
           \<noteq> X (V1 (calculateCoordinates (TriangleLayout_new (Num s)) (Str row2) (Num col2)))
       \<or> Y (V1 (calculateCoordinates (TriangleLayout_new (Num s)) (Str row1) (Num col1)))
           \<noteq> Y (V1 (calculateCoordinates (TriangleLayout_new (Num s)) (Str row2) (Num col2)))
       \<or> X (V2 (calculateCoordinates (TriangleLayout_new (Num s)) (Str row1) (Num col1)))
           \<noteq> X (V2 (calculateCoordinates (TriangleLayout_new (Num s)) (Str row2) (Num col2)))
       \<or> Y (V2 (calculateCoordinates (TriangleLayout_new (Num s)) (Str row1) (Num col1)))
           \<noteq> Y (V2 (calculateCoordinates (TriangleLayout_new (Num s)) (Str row2) (Num col2)))
       \<or> X (V3 (calculateCoordinates (TriangleLayout_new (Num s)) (Str row1) (Num col1)))
           \<noteq> X (V3 (calculateCoordinates (TriangleLayout_new (Num s)) (Str row2) (Num col2)))
       \<or> Y (V3 (calculateCoordinates (TriangleLayout_new (Num s)) (Str row1) (Num col1)))
           \<noteq> Y (V3 (calculateCoordinates (TriangleLayout_new (Num s)) (Str row2) (Num col2))))
       \<and> exact_triple (calculateCoordinates (TriangleLayout_new (Num s)) (Str row1) (Num col1))
       \<and> exact_triple (calculateCoordinates (TriangleLayout_new (Num s)) (Str row2) (Num col2))"
proof -
  let ?L = "TriangleLayout_new (Num s)"
  have "calculateCoordinates ?L (Str row1) (Num col1) \<noteq> calculateCoordinates ?L (Str row2) (Num col2)"
  proof
    assume eq: "calculateCoordinates ?L (Str row1) (Num col1)
                = calculateCoordinates ?L (Str row2) (Num col2)"
    have "calculateRowAndColumn ?L (calculateCoordinates ?L (Str row1) (Num col1))
          = calculateRowAndColumn ?L (calculateCoordinates ?L (Str row2) (Num col2))"
      by (rule arg_cong [OF eq])
    then have "(Str row1, Val (Num col1)) = (Str row2, Val (Num col2))"
      unfolding roundtrip_cell [OF assms(1,3)] roundtrip_cell [OF assms(1,4)] .
    then have "row1 = row2 \<and> col1 = col2" by simp
    with assms(5) show False by simp
  qed
  with coordinates_fields_eq forward_exact [OF assms(1,2,3)] forward_exact [OF assms(1,2,4)]
  show ?thesis by blast
qed

theorem calculateCoordinates_injective_witness:
  "(0::int) < 10 \<and> (6::int) * 10 \<le> 2 ^ 53
   \<and> valid_cell (TriangleLayout_new (Num 10)) ''A'' 1
   \<and> valid_cell (TriangleLayout_new (Num 10)) ''A'' 2 \<and> (''A'', 1::int) \<noteq> (''A'', 2)
   \<and> calculateCoordinates (TriangleLayout_new (Num 10)) (Str ''A'') (Num 1)
     \<noteq> calculateCoordinates (TriangleLayout_new (Num 10)) (Str ''A'') (Num 2)"
proof -
  have p: "(0::int) < 10" by simp
  have b: "(6::int) * 10 \<le> 2 ^ 53" by simp
  have v1: "valid_cell (TriangleLayout_new (Num 10)) ''A'' 1"
    by (simp add: valid_cell_def layout_constants)
  have v2: "valid_cell (TriangleLayout_new (Num 10)) ''A'' 2"
    by (simp add: valid_cell_def layout_constants)
  have d: "(''A'', 1::int) \<noteq> (''A'', 2)" by simp
  from calculateCoordinates_injective [OF p b v1 v2 d]
  have "calculateCoordinates (TriangleLayout_new (Num 10)) (Str ''A'') (Num 1)
     \<noteq> calculateCoordinates (TriangleLayout_new (Num 10)) (Str ''A'') (Num 2)"
    using coordinates_fields_eq
      [of "calculateCoordinates (TriangleLayout_new (Num 10)) (Str ''A'') (Num 1)"
          "calculateCoordinates (TriangleLayout_new (Num 10)) (Str ''A'') (Num 2)"]
    by blast
  with p b v1 v2 d show ?thesis by (intro conjI)
qed

text \<open>
  C6 (parity invariant, as amended). With a positive scale in the exact range
  (\<open>6 * s \<le> 2^53\<close>) and a valid cell, \<open>V1.Y > V2.Y\<close>
  in an odd column; in an even column \<open>V1.Y < V2.Y\<close>, and it is the \<open>X\<close> value that
  \<open>V1\<close> and \<open>V2\<close> share. The claim as stated, \<open>V1.Y = V2.Y\<close> in an even column, fails
  at cell A2 of the default layout, where \<open>V1.Y = 0\<close> and \<open>V2.Y = 10\<close>.
\<close>

theorem parity_invariant_amended:
  assumes "0 < s" and "6 * s \<le> 2 ^ 53"
    and "valid_cell (TriangleLayout_new (Num s)) row col"
  shows "(odd col \<longrightarrow>
            js_gt (Y (V1 (calculateCoordinates (TriangleLayout_new (Num s)) (Str row) (Num col))))
                  (Y (V2 (calculateCoordinates (TriangleLayout_new (Num s)) (Str row) (Num col)))))
       \<and> (even col \<longrightarrow>
            js_lt (Y (V1 (calculateCoordinates (TriangleLayout_new (Num s)) (Str row) (Num col))))
                  (Y (V2 (calculateCoordinates (TriangleLayout_new (Num s)) (Str row) (Num col))))
            \<and> X (V1 (calculateCoordinates (TriangleLayout_new (Num s)) (Str row) (Num col)))
              = X (V2 (calculateCoordinates (TriangleLayout_new (Num s)) (Str row) (Num col))))
       \<and> exact_triple (calculateCoordinates (TriangleLayout_new (Num s)) (Str row) (Num col))"
  using parity_order [OF assms(1,3)] forward_exact [OF assms] by blast

theorem parity_invariant_amended_witness:
  "(0::int) < 10 \<and> (6::int) * 10 \<le> 2 ^ 53
   \<and> valid_cell (TriangleLayout_new (Num 10)) ''C'' 6 \<and> even (6::int)
   \<and> js_lt (Y (V1 (calculateCoordinates (TriangleLayout_new (Num 10)) (Str ''C'') (Num 6))))
           (Y (V2 (calculateCoordinates (TriangleLayout_new (Num 10)) (Str ''C'') (Num 6))))
   \<and> valid_cell (TriangleLayout_new (Num 10)) ''C'' 5 \<and> odd (5::int)
   \<and> js_gt (Y (V1 (calculateCoordinates (TriangleLayout_new (Num 10)) (Str ''C'') (Num 5))))
           (Y (V2 (calculateCoordinates (TriangleLayout_new (Num 10)) (Str ''C'') (Num 5))))"
proof -
  have p: "(0::int) < 10" by simp
  have b: "(6::int) * 10 \<le> 2 ^ 53" by simp
  have v6: "valid_cell (TriangleLayout_new (Num 10)) ''C'' 6"
    by (simp add: valid_cell_def layout_constants)
  have v5: "valid_cell (TriangleLayout_new (Num 10)) ''C'' 5"
    by (simp add: valid_cell_def layout_constants)
  from parity_invariant_amended [OF p b v6] parity_invariant_amended [OF p b v5] p b v5 v6
  show ?thesis by simp
qed

theorem parity_invariant_counterexample:
  "valid_cell (TriangleLayout_new Undefined) ''A'' 2 \<and> even (2::int)
   \<and> Y (V1 (calculateCoordinates (TriangleLayout_new Undefined) (Str ''A'') (Num 2))) = Num 0
   \<and> Y (V2 (calculateCoordinates (TriangleLayout_new Undefined) (Str ''A'') (Num 2))) = Num 10
   \<and> Y (V1 (calculateCoordinates (TriangleLayout_new Undefined) (Str ''A'') (Num 2)))
     \<noteq> Y (V2 (calculateCoordinates (TriangleLayout_new Undefined) (Str ''A'') (Num 2)))"
  by (simp add: valid_cell_def layout_constants default_layout layout_new_explicit
      calculateCoordinates_def js_strict_eq_def Let_def)

text \<open>
  C7 (parity consistency). With a positive scale in the exact range (\<open>6 * s \<le> 2^53\<close>)
  and a valid cell, the computed vertices are integers in the exact range and
  \<open>V1.Y > V2.Y\<close> holds for them if and only if the column is odd.
\<close>

theorem parity_consistency:
  assumes "0 < s" and "6 * s \<le> 2 ^ 53"
    and "valid_cell (TriangleLayout_new (Num s)) row col"
  shows "(js_gt (Y (V1 (calculateCoordinates (TriangleLayout_new (Num s)) (Str row) (Num col))))
               (Y (V2 (calculateCoordinates (TriangleLayout_new (Num s)) (Str row) (Num col))))
         \<longleftrightarrow> odd col)
       \<and> exact_triple (calculateCoordinates (TriangleLayout_new (Num s)) (Str row) (Num col))"
  using parity_order(1) [OF assms(1,3)] forward_exact [OF assms] by (rule conjI)

theorem parity_consistency_witness:
  "(0::int) < 10 \<and> (6::int) * 10 \<le> 2 ^ 53
   \<and> valid_cell (TriangleLayout_new (Num 10)) ''F'' 11
   \<and> js_gt (Y (V1 (calculateCoordinates (TriangleLayout_new (Num 10)) (Str ''F'') (Num 11))))
           (Y (V2 (calculateCoordinates (TriangleLayout_new (Num 10)) (Str ''F'') (Num 11))))
   \<and> valid_cell (TriangleLayout_new (Num 10)) ''F'' 12
   \<and> \<not> js_gt (Y (V1 (calculateCoordinates (TriangleLayout_new (Num 10)) (Str ''F'') (Num 12))))
             (Y (V2 (calculateCoordinates (TriangleLayout_new (Num 10)) (Str ''F'') (Num 12))))"
proof -
  have p: "(0::int) < 10" by simp
  have b: "(6::int) * 10 \<le> 2 ^ 53" by simp
  have v11: "valid_cell (TriangleLayout_new (Num 10)) ''F'' 11"
    by (simp add: valid_cell_def layout_constants)
  have v12: "valid_cell (TriangleLayout_new (Num 10)) ''F'' 12"
    by (simp add: valid_cell_def layout_constants)
  from parity_consistency [OF p b v11] parity_consistency [OF p b v12] p b v11 v12
  show ?thesis by simp
qed

text \<open>
  C8 (construction maps). After construction with a positive integer scale in the exact
  range (\<open>6 * s \<le> 2^53\<close>), the row map
  sends the \<open>i\<close>-th of the row characters A to F (counted from 0) to \<open>i * scale\<close>; the
  column map sends column 1 to 0, an even column from 2 to 12 to the value of the column
  before it, and an odd column from 3 to 11 to that value plus the scale, so that column
  \<open>i\<close> has the value \<open>scale * ((i - 1) div 2)\<close>. The keys are in the order A to F and
  1 to 12, and every value stored is in the exact range.
\<close>

theorem construction_maps:
  assumes "0 < s" and "6 * s \<le> 2 ^ 53"
  shows "SCALE (TriangleLayout_new (Num s)) = Num s
       \<and> ROW_CHARS (TriangleLayout_new (Num s)) = [''A'', ''B'', ''C'', ''D'', ''E'', ''F'']
       \<and> Map_keys (ROW_MAP (TriangleLayout_new (Num s))) = ROW_CHARS (TriangleLayout_new (Num s))
       \<and> (\<forall>i < 6. Map_get (ROW_MAP (TriangleLayout_new (Num s)))
                     (ROW_CHARS (TriangleLayout_new (Num s)) ! i) = Num (int i * s))
       \<and> Map_keys (COL_MAP (TriangleLayout_new (Num s))) = [1, 2, 3, 4, 5, 6, 7, 8, 9, 10, 11, 12]
       \<and> Map_get (COL_MAP (TriangleLayout_new (Num s))) 1 = Num 0
       \<and> (\<forall>i \<in> {2 .. 12}. even i \<longrightarrow>
            Map_get (COL_MAP (TriangleLayout_new (Num s))) i
            = Map_get (COL_MAP (TriangleLayout_new (Num s))) (i - 1))
       \<and> (\<forall>i \<in> {3 .. 11}. odd i \<longrightarrow>
            Map_get (COL_MAP (TriangleLayout_new (Num s))) i
            = js_add (Map_get (COL_MAP (TriangleLayout_new (Num s))) (i - 1)) (Num s))
       \<and> (\<forall>i \<in> {1 .. 12}.
            Map_get (COL_MAP (TriangleLayout_new (Num s))) i = Num (s * ((i - 1) div 2))
            \<and> exact_int (s * ((i - 1) div 2)))
       \<and> (\<forall>i < 6. exact_int (int i * s))"
proof -
  from assms have s: "s \<noteq> 0" by simp
  have rows: "\<forall>i < 6. Map_get (ROW_MAP (TriangleLayout_new (Num s)))
                     (ROW_CHARS (TriangleLayout_new (Num s)) ! i) = Num (int i * s)"
  proof (intro allI impI)
    fix i :: nat
    assume "i < 6"
    then have "i \<in> {0, 1, 2, 3, 4, 5}" by simp arith
    then show "Map_get (ROW_MAP (TriangleLayout_new (Num s)))
                     (ROW_CHARS (TriangleLayout_new (Num s)) ! i) = Num (int i * s)"
      using s by (elim insertE emptyE) (simp_all add: layout_new_explicit)
  qed
  have cols: "i \<in> {1, 2, 3, 4, 5, 6, 7, 8, 9, 10, 11, 12}" if "1 \<le> i" "i \<le> 12" for i :: int
    using that by simp arith
  have even_cols: "\<forall>i \<in> {2 .. 12}. even i \<longrightarrow>
            Map_get (COL_MAP (TriangleLayout_new (Num s))) i
            = Map_get (COL_MAP (TriangleLayout_new (Num s))) (i - 1)"
  proof (intro ballI impI)
    fix i :: int
    assume "i \<in> {2 .. 12}" and e: "even i"
    then have "i \<in> {1, 2, 3, 4, 5, 6, 7, 8, 9, 10, 11, 12}" by (intro cols) simp_all
    then show "Map_get (COL_MAP (TriangleLayout_new (Num s))) i
            = Map_get (COL_MAP (TriangleLayout_new (Num s))) (i - 1)"
      using s e by (elim insertE emptyE) (simp_all add: layout_new_explicit)
  qed
  have odd_cols: "\<forall>i \<in> {3 .. 11}. odd i \<longrightarrow>
            Map_get (COL_MAP (TriangleLayout_new (Num s))) i
            = js_add (Map_get (COL_MAP (TriangleLayout_new (Num s))) (i - 1)) (Num s)"
  proof (intro ballI impI)
    fix i :: int
    assume i: "i \<in> {3 .. 11}" and o: "odd i"
    then have "i \<in> {1, 2, 3, 4, 5, 6, 7, 8, 9, 10, 11, 12}" by (intro cols) simp_all
    then show "Map_get (COL_MAP (TriangleLayout_new (Num s))) i
            = js_add (Map_get (COL_MAP (TriangleLayout_new (Num s))) (i - 1)) (Num s)"
      using s o i by (elim insertE emptyE) (simp_all add: layout_new_explicit)
  qed
  have closed: "\<forall>i \<in> {1 .. 12}.
            Map_get (COL_MAP (TriangleLayout_new (Num s))) i = Num (s * ((i - 1) div 2))
            \<and> exact_int (s * ((i - 1) div 2))"
  proof (intro ballI)
    fix i :: int
    assume "i \<in> {1 .. 12}"
    then have "i \<in> {1, 2, 3, 4, 5, 6, 7, 8, 9, 10, 11, 12}" by (intro cols) simp_all
    then show "Map_get (COL_MAP (TriangleLayout_new (Num s))) i = Num (s * ((i - 1) div 2))
            \<and> exact_int (s * ((i - 1) div 2))"
      using s assms by (elim insertE emptyE) (simp_all add: layout_new_explicit exact_int_def)
  qed
  have rows_exact: "\<forall>i < 6. exact_int (int i * s)"
  proof (intro allI impI)
    fix i :: nat
    assume "i < 6"
    then have "i \<in> {0, 1, 2, 3, 4, 5}" by simp arith
    then show "exact_int (int i * s)"
      using assms by (elim insertE emptyE) (simp_all add: exact_int_def)
  qed
  from rows even_cols odd_cols closed rows_exact layout_keys [OF s] s show ?thesis
    by (simp add: layout_new_explicit)
qed

theorem construction_maps_witness:
  "(0::int) < 10 \<and> (6::int) * 10 \<le> 2 ^ 53
   \<and> ROW_MAP (TriangleLayout_new (Num 10))
     = [(''A'', Num 0), (''B'', Num 10), (''C'', Num 20), (''D'', Num 30), (''E'', Num 40),
        (''F'', Num 50)]
   \<and> Map_get (COL_MAP (TriangleLayout_new (Num 10))) 4
     = Map_get (COL_MAP (TriangleLayout_new (Num 10))) 3
   \<and> Map_get (COL_MAP (TriangleLayout_new (Num 10))) 3
     = js_add (Map_get (COL_MAP (TriangleLayout_new (Num 10))) 2) (Num 10)
   \<and> Map_get (COL_MAP (TriangleLayout_new (Num 10))) 12 = Num 50"
proof -
  have p: "(0::int) < 10" by simp
  have b: "(6::int) * 10 \<le> 2 ^ 53" by simp
  from construction_maps [OF p b] show ?thesis
    by (simp add: layout_new_explicit)
qed

text \<open>
  C9 (validation guard). For a layout built with any scale, \<^verbatim>\<open>isValidRowAndCol\<close> throws the
  row message exactly when the row is not one of the strings A to F; it throws the column
  message exactly when the row is one of them and the column is not a number
  (\<^verbatim>\<open>isNaN\<close>), below 1 or above 12; and it returns true exactly when the row is one of them
  and the column is a number from 1 to 12. So (Z, 1) throws the row message, (A, 13) and
  (A, 0) throw the column message, and (A, 1) returns true.
\<close>

theorem validation_guard:
  "(isValidRowAndCol (TriangleLayout_new scale) row col
      = Inl (''Row ['' @ ToString row @ ''] is not a valid row character'')
    \<longleftrightarrow> row \<notin> Str ` set [''A'', ''B'', ''C'', ''D'', ''E'', ''F''])
   \<and> (isValidRowAndCol (TriangleLayout_new scale) row col = Inl ''Invalid column number''
    \<longleftrightarrow> row \<in> Str ` set [''A'', ''B'', ''C'', ''D'', ''E'', ''F'']
        \<and> (isNaN col \<or> js_lt col (Num 1) \<or> js_gt col (Num 12)))
   \<and> (isValidRowAndCol (TriangleLayout_new scale) row col = Inr True
    \<longleftrightarrow> row \<in> Str ` set [''A'', ''B'', ''C'', ''D'', ''E'', ''F'']
        \<and> (\<exists>n. col = Num n \<and> 1 \<le> n \<and> n \<le> 12))
   \<and> isValidRowAndCol (TriangleLayout_new scale) (Str ''Z'') (Num 1)
       = Inl ''Row [Z] is not a valid row character''
   \<and> isValidRowAndCol (TriangleLayout_new scale) (Str ''A'') (Num 13)
       = Inl ''Invalid column number''
   \<and> isValidRowAndCol (TriangleLayout_new scale) (Str ''A'') (Num 0)
       = Inl ''Invalid column number''
   \<and> isValidRowAndCol (TriangleLayout_new scale) (Str ''A'') (Num 1) = Inr True"
proof -
  have inc: "ROW_CHARS_includes (TriangleLayout_new scale) row
             \<longleftrightarrow> row \<in> Str ` set [''A'', ''B'', ''C'', ''D'', ''E'', ''F'']"
    by (cases row) (auto simp: layout_constants)
  have col: "(\<exists>n. col = Num n \<and> 1 \<le> n \<and> n \<le> 12)
             \<longleftrightarrow> \<not> (isNaN col \<or> js_lt col (Num 1) \<or> js_gt col (Num 12))"
    by (cases col) auto
  show ?thesis
    unfolding col by (simp add: isValidRowAndCol_def inc layout_constants)
qed

theorem validation_guard_witness:
  "isValidRowAndCol (TriangleLayout_new Undefined) (Str ''F'') (Num 12) = Inr True
   \<and> isValidRowAndCol (TriangleLayout_new Undefined) (Str ''F'') NaN = Inl ''Invalid column number''
   \<and> isValidRowAndCol (TriangleLayout_new Undefined) (Str ''f'') (Num 12)
     = Inl ''Row [f] is not a valid row character''"
  using validation_guard [of Undefined "Str ''F''" "Num 12"]
    validation_guard [of Undefined "Str ''F''" NaN]
    validation_guard [of Undefined "Str ''f''" "Num 12"]
  by simp

text \<open>
  C10 (validation precedence). When the row is not one of the strings A to F and the
  column is not a number, below 1 or above 12, \<^verbatim>\<open>isValidRowAndCol\<close> throws the row message
  and not the column message.
\<close>

theorem validation_precedence:
  assumes "row \<notin> Str ` set [''A'', ''B'', ''C'', ''D'', ''E'', ''F'']"
    and "isNaN col \<or> js_lt col (Num 1) \<or> js_gt col (Num 12)"
  shows "isValidRowAndCol (TriangleLayout_new scale) row col
           = Inl (''Row ['' @ ToString row @ ''] is not a valid row character'')
       \<and> isValidRowAndCol (TriangleLayout_new scale) row col \<noteq> Inl ''Invalid column number''"
proof -
  have inc: "\<not> ROW_CHARS_includes (TriangleLayout_new scale) row"
    using assms(1) by (cases row) (auto simp: layout_constants)
  then show ?thesis by (simp add: isValidRowAndCol_def)
qed

theorem validation_precedence_witness:
  "Str ''Z'' \<notin> Str ` set [''A'', ''B'', ''C'', ''D'', ''E'', ''F'']
   \<and> js_gt (Num 13) (Num 12)
   \<and> isValidRowAndCol (TriangleLayout_new Undefined) (Str ''Z'') (Num 13)
     = Inl ''Row [Z] is not a valid row character''"
proof -
  have r: "Str ''Z'' \<notin> Str ` set [''A'', ''B'', ''C'', ''D'', ''E'', ''F'']" by auto
  have c: "isNaN (Num 13) \<or> js_lt (Num 13) (Num 1) \<or> js_gt (Num 13) (Num 12)" by simp
  from validation_precedence [OF r c, of Undefined] r show ?thesis by simp
qed

end
